theory Spec2Isabelle
  imports Complex_Main
begin

section \<open>The salary calculator: data model\<close>

text \<open>
  The program computes with Python numbers: the gross salary is an integer read from the
  command line, the bracket bounds are integers and the rates and the tax points are floats.
  The embedding computes in exact arithmetic: every amount is a rational number
  (\<^typ>\<open>rat\<close>), the bracket bounds are integers (\<^typ>\<open>int\<close>) as the dataclass declares
  them. Rounding of binary floating point is therefore outside this development.
\<close>

record TaxBracket =
  max_taxable_income :: int
  tax_rate :: rat

record TaxBracketsDeductionCalculator =
  tax_brackets :: "TaxBracket list"

text \<open>
  The top bracket of the income tax table is bounded by \<open>sys.maxsize\<close>, which is
  \<open>2 ^ 63 - 1\<close> on a 64-bit CPython.
\<close>

definition sys_maxsize :: int where
  "sys_maxsize = 2 ^ 63 - 1"

section \<open>The bracket engine\<close>

text \<open>
  The body of \<open>TaxBracketsDeductionCalculator.calculate\<close>: the \<open>for\<close> loop over the
  brackets, with its two local variables \<open>last_max_taxable_income\<close> and \<open>deduction\<close>
  as arguments. The \<open>else: break\<close> branch leaves the loop with the deduction so far.
\<close>

fun calculate_loop :: "TaxBracket list \<Rightarrow> rat \<Rightarrow> int \<Rightarrow> rat \<Rightarrow> rat" where
  "calculate_loop [] gross_salary last_max_taxable_income deduction = deduction"
| "calculate_loop (tax_bracket # rest) gross_salary last_max_taxable_income deduction =
     (if gross_salary \<ge> of_int last_max_taxable_income then
        let bracket_taxable_income =
              min gross_salary (of_int (max_taxable_income tax_bracket))
                - of_int last_max_taxable_income;
            bracket_tax_deduction = bracket_taxable_income * tax_rate tax_bracket
        in calculate_loop rest gross_salary (max_taxable_income tax_bracket)
             (deduction + bracket_tax_deduction)
      else deduction)"

definition TaxBracketsDeductionCalculator_calculate ::
    "TaxBracketsDeductionCalculator \<Rightarrow> rat \<Rightarrow> rat" where
  "TaxBracketsDeductionCalculator_calculate self gross_salary =
     calculate_loop (tax_brackets self) gross_salary 0 0"

text \<open>
  The dataclass generates the constructor: it stores the list it is given. The class has no
  \<open>__post_init__\<close> and \<open>calculate\<close> has no \<open>raise\<close>, so building a calculator and
  applying it has one outcome, the normal return. The outcome is written as a sum so that
  a failure would be a value of its own.
\<close>

datatype error = ConfigurationError

definition TaxBracketsDeductionCalculator_init ::
    "TaxBracket list \<Rightarrow> error + TaxBracketsDeductionCalculator" where
  "TaxBracketsDeductionCalculator_init brackets = Inr \<lparr>tax_brackets = brackets\<rparr>"

definition construct_and_calculate :: "TaxBracket list \<Rightarrow> rat \<Rightarrow> error + rat" where
  "construct_and_calculate brackets gross_salary =
     (case TaxBracketsDeductionCalculator_init brackets of
        Inl e \<Rightarrow> Inl e
      | Inr self \<Rightarrow> Inr (TaxBracketsDeductionCalculator_calculate self gross_salary))"

text \<open>
  A bracket table is well formed when its upper bounds are strictly ascending and every
  rate lies in \<open>[0, 1]\<close>.
\<close>

definition ascending_bounds :: "TaxBracket list \<Rightarrow> bool" where
  "ascending_bounds brackets = sorted_wrt (<) (map max_taxable_income brackets)"

definition rates_in_range :: "TaxBracket list \<Rightarrow> bool" where
  "rates_in_range brackets = list_all (\<lambda>b. 0 \<le> tax_rate b \<and> tax_rate b \<le> 1) brackets"

definition well_formed :: "TaxBracket list \<Rightarrow> bool" where
  "well_formed brackets = (ascending_bounds brackets \<and> rates_in_range brackets)"

section \<open>The deduction rules\<close>

definition TAX_POINT_VALUE :: rat where
  "TAX_POINT_VALUE = 223"

definition income_tax_brackets :: TaxBracketsDeductionCalculator where
  "income_tax_brackets = \<lparr>tax_brackets =
     [\<lparr>max_taxable_income = 6450, tax_rate = 0.1\<rparr>,
      \<lparr>max_taxable_income = 9240, tax_rate = 0.14\<rparr>,
      \<lparr>max_taxable_income = 14840, tax_rate = 0.2\<rparr>,
      \<lparr>max_taxable_income = 20620, tax_rate = 0.31\<rparr>,
      \<lparr>max_taxable_income = 42910, tax_rate = 0.35\<rparr>,
      \<lparr>max_taxable_income = 55270, tax_rate = 0.47\<rparr>,
      \<lparr>max_taxable_income = sys_maxsize, tax_rate = 0.5\<rparr>]\<rparr>"

definition national_insurance_brackets :: TaxBracketsDeductionCalculator where
  "national_insurance_brackets = \<lparr>tax_brackets =
     [\<lparr>max_taxable_income = 6331, tax_rate = 0.004\<rparr>,
      \<lparr>max_taxable_income = 44020, tax_rate = 0.07\<rparr>]\<rparr>"

definition health_insurance_brackets :: TaxBracketsDeductionCalculator where
  "health_insurance_brackets = \<lparr>tax_brackets =
     [\<lparr>max_taxable_income = 6331, tax_rate = 0.031\<rparr>,
      \<lparr>max_taxable_income = 44020, tax_rate = 0.05\<rparr>]\<rparr>"

text \<open>
  The four subclasses of \<open>DeductionCalculator\<close>, each with its fields. The bracket
  calculator of the first three is a field with a default value, so it is an argument of
  the constructor here.
\<close>

datatype DeductionCalculator =
    IncomeTaxCalculator rat TaxBracketsDeductionCalculator
  | NationalInsuranceCalculator TaxBracketsDeductionCalculator
  | HealthInsuranceCalculator TaxBracketsDeductionCalculator
  | MandatoryPensionSavingsCalculator

definition IncomeTaxCalculator_calculate ::
    "rat \<Rightarrow> TaxBracketsDeductionCalculator \<Rightarrow> rat \<Rightarrow> rat" where
  "IncomeTaxCalculator_calculate tax_points tax_brackets_deduction_calculator gross_salary =
     TaxBracketsDeductionCalculator_calculate tax_brackets_deduction_calculator gross_salary
       - TAX_POINT_VALUE * tax_points"

definition NationalInsuranceCalculator_calculate ::
    "TaxBracketsDeductionCalculator \<Rightarrow> rat \<Rightarrow> rat" where
  "NationalInsuranceCalculator_calculate tax_brackets_deduction_calculator gross_salary =
     TaxBracketsDeductionCalculator_calculate tax_brackets_deduction_calculator gross_salary"

definition HealthInsuranceCalculator_calculate ::
    "TaxBracketsDeductionCalculator \<Rightarrow> rat \<Rightarrow> rat" where
  "HealthInsuranceCalculator_calculate tax_brackets_deduction_calculator gross_salary =
     TaxBracketsDeductionCalculator_calculate tax_brackets_deduction_calculator gross_salary"

definition MandatoryPensionSavingsCalculator_calculate :: "rat \<Rightarrow> rat" where
  "MandatoryPensionSavingsCalculator_calculate gross_salary = gross_salary * 0.06"

text \<open>The method call \<open>deduction_calculator.calculate(gross_salary)\<close>, by class.\<close>

fun calculate :: "DeductionCalculator \<Rightarrow> rat \<Rightarrow> rat" where
  "calculate (IncomeTaxCalculator tax_points c) gross_salary =
     IncomeTaxCalculator_calculate tax_points c gross_salary"
| "calculate (NationalInsuranceCalculator c) gross_salary =
     NationalInsuranceCalculator_calculate c gross_salary"
| "calculate (HealthInsuranceCalculator c) gross_salary =
     HealthInsuranceCalculator_calculate c gross_salary"
| "calculate MandatoryPensionSavingsCalculator gross_salary =
     MandatoryPensionSavingsCalculator_calculate gross_salary"

fun repr :: "DeductionCalculator \<Rightarrow> string" where
  "repr (IncomeTaxCalculator tax_points c) = ''Income tax''"
| "repr (NationalInsuranceCalculator c) = ''National insurance''"
| "repr (HealthInsuranceCalculator c) = ''Health insurance''"
| "repr MandatoryPensionSavingsCalculator = ''Mandatory pension savings''"

section \<open>The net salary calculator\<close>

record NetSalaryCalculator =
  deduction_calculators :: "DeductionCalculator list"

text \<open>
  The loop of \<open>NetSalaryCalculator.calculate\<close>. Its state is the running sum
  \<open>deductions\<close> and the log: each \<open>logging.debug\<close> call appends one record, the name of
  the rule and the amount it returned (the program prints the amount with two decimals;
  the record keeps the amount itself).
\<close>

type_synonym log = "(string \<times> rat) list"

fun deductions_loop :: "DeductionCalculator list \<Rightarrow> rat \<Rightarrow> rat \<Rightarrow> log \<Rightarrow> rat \<times> log" where
  "deductions_loop [] gross_salary deductions lg = (deductions, lg)"
| "deductions_loop (deduction_calculator # rest) gross_salary deductions lg =
     (let deduction = calculate deduction_calculator gross_salary
      in deductions_loop rest gross_salary (deductions + deduction)
           (lg @ [(repr deduction_calculator, deduction)]))"

definition NetSalaryCalculator_calculate :: "NetSalaryCalculator \<Rightarrow> rat \<Rightarrow> rat \<times> log" where
  "NetSalaryCalculator_calculate self gross_salary =
     (case deductions_loop (deduction_calculators self) gross_salary 0 [] of
        (deductions, lg) \<Rightarrow> (gross_salary - deductions, lg))"

definition NetSalaryCalculatorFactory_create :: "rat \<Rightarrow> NetSalaryCalculator" where
  "NetSalaryCalculatorFactory_create tax_points = \<lparr>deduction_calculators =
     [IncomeTaxCalculator tax_points income_tax_brackets,
      NationalInsuranceCalculator national_insurance_brackets,
      HealthInsuranceCalculator health_insurance_brackets,
      MandatoryPensionSavingsCalculator]\<rparr>"

section \<open>Properties of the bracket engine\<close>

lemma calculate_loop_acc:
  "calculate_loop bs g l d = d + calculate_loop bs g l 0"
proof (induction bs arbitrary: l d)
  case Nil
  show ?case by simp
next
  case (Cons b bs)
  show ?case
  proof (cases "g \<ge> of_int l")
    case True
    have "calculate_loop (b # bs) g l d =
            calculate_loop bs g (max_taxable_income b)
              (d + (min g (of_int (max_taxable_income b)) - of_int l) * tax_rate b)"
      using True by (simp add: Let_def)
    also have "\<dots> = d + (min g (of_int (max_taxable_income b)) - of_int l) * tax_rate b
                     + calculate_loop bs g (max_taxable_income b) 0"
      by (rule Cons.IH)
    also have "\<dots> = d + calculate_loop bs g (max_taxable_income b)
                           (0 + (min g (of_int (max_taxable_income b)) - of_int l) * tax_rate b)"
      using Cons.IH [of "max_taxable_income b"
          "0 + (min g (of_int (max_taxable_income b)) - of_int l) * tax_rate b"]
      by simp
    also have "\<dots> = d + calculate_loop (b # bs) g l 0"
      using True by (simp add: Let_def)
    finally show ?thesis .
  next
    case False
    then show ?thesis by simp
  qed
qed

lemma calculate_loop_Cons_taken:
  assumes "of_int l \<le> g"
  shows "calculate_loop (b # bs) g l 0 =
           (min g (of_int (max_taxable_income b)) - of_int l) * tax_rate b
             + calculate_loop bs g (max_taxable_income b) 0"
proof -
  have "calculate_loop (b # bs) g l 0 =
          calculate_loop bs g (max_taxable_income b)
            (0 + (min g (of_int (max_taxable_income b)) - of_int l) * tax_rate b)"
    using assms by (simp add: Let_def)
  also have "\<dots> = 0 + (min g (of_int (max_taxable_income b)) - of_int l) * tax_rate b
                     + calculate_loop bs g (max_taxable_income b) 0"
    by (rule calculate_loop_acc)
  finally show ?thesis by simp
qed

lemma calculate_loop_nonneg:
  assumes "sorted_wrt (<) (l # map max_taxable_income bs)"
    and "list_all (\<lambda>b. 0 \<le> tax_rate b) bs"
  shows "0 \<le> calculate_loop bs g l 0"
  using assms
proof (induction bs arbitrary: l)
  case Nil
  show ?case by simp
next
  case (Cons b bs)
  let ?m = "max_taxable_income b"
  from Cons.prems have lm: "l < ?m" and srt: "sorted_wrt (<) (?m # map max_taxable_income bs)"
    and r: "0 \<le> tax_rate b" and rs: "list_all (\<lambda>b. 0 \<le> tax_rate b) bs"
    by auto
  show ?case
  proof (cases "of_int l \<le> g")
    case True
    from lm have "(of_int l :: rat) \<le> of_int ?m" by simp
    with True have "0 \<le> min g (of_int ?m) - of_int l" by simp
    with r have "0 \<le> (min g (of_int ?m) - of_int l) * tax_rate b" by simp
    moreover have "0 \<le> calculate_loop bs g ?m 0" using srt rs by (rule Cons.IH)
    ultimately show ?thesis by (simp only: calculate_loop_Cons_taken [OF True] add_nonneg_nonneg)
  next
    case False
    then show ?thesis by simp
  qed
qed

lemma calculate_loop_mono_sorted:
  assumes "sorted_wrt (<) (l # map max_taxable_income bs)"
    and "list_all (\<lambda>b. 0 \<le> tax_rate b) bs"
    and "g1 \<le> g2"
  shows "calculate_loop bs g1 l 0 \<le> calculate_loop bs g2 l 0"
  using assms(1,2)
proof (induction bs arbitrary: l)
  case Nil
  show ?case by simp
next
  case (Cons b bs)
  let ?m = "max_taxable_income b"
  from Cons.prems have srt: "sorted_wrt (<) (?m # map max_taxable_income bs)"
    and r: "0 \<le> tax_rate b" and rs: "list_all (\<lambda>b. 0 \<le> tax_rate b) bs"
    by auto
  consider (both) "of_int l \<le> g1" | (second) "g1 < of_int l" "of_int l \<le> g2"
    | (none) "g2 < of_int l"
    by linarith
  then show ?case
  proof cases
    case both
    with \<open>g1 \<le> g2\<close> have l2: "of_int l \<le> g2" by simp
    have "min g1 (of_int ?m) - of_int l \<le> min g2 (of_int ?m) - of_int l"
      using \<open>g1 \<le> g2\<close> by simp
    then have "(min g1 (of_int ?m) - of_int l) * tax_rate b
                 \<le> (min g2 (of_int ?m) - of_int l) * tax_rate b"
      using r by (rule mult_right_mono)
    moreover have "calculate_loop bs g1 ?m 0 \<le> calculate_loop bs g2 ?m 0"
      using srt rs by (rule Cons.IH)
    ultimately show ?thesis
      by (simp only: calculate_loop_Cons_taken [OF both] calculate_loop_Cons_taken [OF l2]
            add_mono)
  next
    case second
    have "calculate_loop (b # bs) g1 l 0 = 0" using second(1) by simp
    moreover have "0 \<le> calculate_loop (b # bs) g2 l 0"
      using Cons.prems by (rule calculate_loop_nonneg)
    ultimately show ?thesis by simp
  next
    case none
    with \<open>g1 \<le> g2\<close> have "g1 < of_int l" by simp
    with none show ?thesis by simp
  qed
qed

lemma calculate_loop_mono:
  assumes "sorted_wrt (<) (map max_taxable_income bs)"
    and "list_all (\<lambda>b. 0 \<le> tax_rate b) bs"
    and "of_int l \<le> g1" and "g1 \<le> g2"
  shows "calculate_loop bs g1 l 0 \<le> calculate_loop bs g2 l 0"
proof (cases bs)
  case Nil
  then show ?thesis by simp
next
  case (Cons b bs')
  let ?m = "max_taxable_income b"
  from assms(1,2) Cons have srt: "sorted_wrt (<) (?m # map max_taxable_income bs')"
    and r: "0 \<le> tax_rate b" and rs: "list_all (\<lambda>b. 0 \<le> tax_rate b) bs'"
    by auto
  from assms(3,4) have l2: "of_int l \<le> g2" by simp
  have "min g1 (of_int ?m) - of_int l \<le> min g2 (of_int ?m) - of_int l"
    using \<open>g1 \<le> g2\<close> by simp
  then have "(min g1 (of_int ?m) - of_int l) * tax_rate b
               \<le> (min g2 (of_int ?m) - of_int l) * tax_rate b"
    using r by (rule mult_right_mono)
  moreover have "calculate_loop bs' g1 ?m 0 \<le> calculate_loop bs' g2 ?m 0"
    using srt rs \<open>g1 \<le> g2\<close> by (rule calculate_loop_mono_sorted)
  ultimately show ?thesis
    unfolding Cons
    by (simp only: calculate_loop_Cons_taken [OF assms(3)] calculate_loop_Cons_taken [OF l2]
          add_mono)
qed

lemma rates_in_range_nonneg:
  "rates_in_range bs \<Longrightarrow> list_all (\<lambda>b. 0 \<le> tax_rate b) bs"
  by (simp add: rates_in_range_def list_all_iff)

text \<open>
  C6. On a bracket table with strictly ascending upper bounds and rates in \<open>[0, 1]\<close>, the
  bracket deduction does not decrease when the gross salary grows: for
  \<open>0 \<le> g1 \<le> g2\<close> the deduction at \<open>g1\<close> is at most the deduction at \<open>g2\<close>.
\<close>

theorem C6_calculate_monotone:
  assumes "well_formed (tax_brackets c)" and "0 \<le> g1" and "g1 \<le> g2"
  shows "TaxBracketsDeductionCalculator_calculate c g1
           \<le> TaxBracketsDeductionCalculator_calculate c g2"
proof -
  from assms(1) have "sorted_wrt (<) (map max_taxable_income (tax_brackets c))"
    by (simp add: well_formed_def ascending_bounds_def)
  moreover from assms(1) have "list_all (\<lambda>b. 0 \<le> tax_rate b) (tax_brackets c)"
    by (simp add: well_formed_def rates_in_range_nonneg)
  moreover from assms(2) have "of_int 0 \<le> g1" by simp
  ultimately have "calculate_loop (tax_brackets c) g1 0 0
                     \<le> calculate_loop (tax_brackets c) g2 0 0"
    using assms(3) by (rule calculate_loop_mono)
  then show ?thesis by (simp add: TaxBracketsDeductionCalculator_calculate_def)
qed

lemma well_formed_national_insurance:
  "well_formed (tax_brackets national_insurance_brackets)"
  by (simp add: well_formed_def ascending_bounds_def rates_in_range_def
      national_insurance_brackets_def)

theorem C6_calculate_monotone_witness:
  "well_formed (tax_brackets national_insurance_brackets)
   \<and> (0::rat) \<le> 5000 \<and> (5000::rat) \<le> 10000
   \<and> TaxBracketsDeductionCalculator_calculate national_insurance_brackets 5000
       \<le> TaxBracketsDeductionCalculator_calculate national_insurance_brackets 10000"
proof -
  have w: "well_formed (tax_brackets national_insurance_brackets)"
    by (rule well_formed_national_insurance)
  have a: "(0::rat) \<le> 5000" by simp
  have b: "(5000::rat) \<le> 10000" by simp
  show ?thesis using w a b C6_calculate_monotone [OF w a b] by simp
qed

section \<open>Unfolding the rules and the default tables\<close>

lemmas rule_defs =
  NationalInsuranceCalculator_calculate_def HealthInsuranceCalculator_calculate_def
  IncomeTaxCalculator_calculate_def MandatoryPensionSavingsCalculator_calculate_def
  TaxBracketsDeductionCalculator_calculate_def TAX_POINT_VALUE_def

lemmas table_defs =
  national_insurance_brackets_def health_insurance_brackets_def income_tax_brackets_def
  sys_maxsize_def

lemma deductions_loop_eq:
  "deductions_loop cs g d lg =
     (d + sum_list (map (\<lambda>c. calculate c g) cs), lg @ map (\<lambda>c. (repr c, calculate c g)) cs)"
proof (induction cs arbitrary: d lg)
  case Nil
  show ?case by simp
next
  case (Cons c cs)
  show ?case by (simp add: Cons.IH Let_def add.assoc)
qed

lemma calculate_loop_negative:
  "g < of_int l \<Longrightarrow> calculate_loop bs g l d = d"
  by (cases bs) simp_all

lemma calculate_loop_zero:
  assumes "list_all (\<lambda>b. 0 \<le> max_taxable_income b) bs" and "0 \<le> l"
  shows "calculate_loop bs 0 l 0 = 0"
  using assms
proof (induction bs arbitrary: l)
  case Nil
  show ?case by simp
next
  case (Cons b bs)
  from Cons.prems have m: "0 \<le> max_taxable_income b"
    and rest: "list_all (\<lambda>b. 0 \<le> max_taxable_income b) bs"
    by simp_all
  show ?case
  proof (cases "l = 0")
    case True
    have "calculate_loop (b # bs) 0 l 0 = calculate_loop bs 0 (max_taxable_income b) 0"
      using True m by (simp add: Let_def)
    also have "\<dots> = 0" using rest m by (rule Cons.IH)
    finally show ?thesis .
  next
    case False
    with Cons.prems(2) have "(0::rat) < of_int l" by simp
    then show ?thesis by (rule calculate_loop_negative)
  qed
qed

lemma nonneg_bounds_income_tax:
  "list_all (\<lambda>b. 0 \<le> max_taxable_income b) (tax_brackets income_tax_brackets)"
  by (simp add: income_tax_brackets_def sys_maxsize_def)

lemma well_formed_income_tax: "well_formed (tax_brackets income_tax_brackets)"
  by (simp add: well_formed_def ascending_bounds_def rates_in_range_def
      income_tax_brackets_def sys_maxsize_def)

section \<open>The claims\<close>

text \<open>
  C1, as stated, fails: the second tier of both insurance tables is bounded by 44020, so
  at a gross salary of 50000 neither deduction equals the first tier plus the rest of the
  salary at the second rate.
\<close>

theorem C1_counterexample:
  "NationalInsuranceCalculator_calculate national_insurance_brackets 50000
     \<noteq> 6331 * 0.004 + (50000 - 6331) * 0.07
   \<and> HealthInsuranceCalculator_calculate health_insurance_brackets 50000
     \<noteq> 6331 * 0.031 + (50000 - 6331) * 0.05"
  by (simp add: rule_defs table_defs Let_def)

text \<open>
  C1, amended. The National Insurance rule and the Health Insurance rule are each the
  bracket engine applied to a two-tier table: first tier up to 6331 (rates 0.004 and
  0.031), second tier up to 44020 (rates 0.07 and 0.05). For every gross salary from 6331
  up to 44020 the National Insurance deduction is
  \<open>6331 * 0.004 + (gross_salary - 6331) * 0.07\<close>, and likewise for Health Insurance with
  the rates 0.031 and 0.05.
\<close>

theorem C1_insurance_rules:
  assumes "6331 \<le> gross_salary" and "gross_salary \<le> 44020"
  shows "tax_brackets national_insurance_brackets =
           [\<lparr>max_taxable_income = 6331, tax_rate = 0.004\<rparr>,
            \<lparr>max_taxable_income = 44020, tax_rate = 0.07\<rparr>]
       \<and> tax_brackets health_insurance_brackets =
           [\<lparr>max_taxable_income = 6331, tax_rate = 0.031\<rparr>,
            \<lparr>max_taxable_income = 44020, tax_rate = 0.05\<rparr>]
       \<and> calculate (NationalInsuranceCalculator c) gross_salary
           = TaxBracketsDeductionCalculator_calculate c gross_salary
       \<and> calculate (HealthInsuranceCalculator c) gross_salary
           = TaxBracketsDeductionCalculator_calculate c gross_salary
       \<and> NationalInsuranceCalculator_calculate national_insurance_brackets gross_salary
           = 6331 * 0.004 + (gross_salary - 6331) * 0.07
       \<and> HealthInsuranceCalculator_calculate health_insurance_brackets gross_salary
           = 6331 * 0.031 + (gross_salary - 6331) * 0.05"
proof -
  have "min gross_salary 6331 = 6331" "min gross_salary 44020 = gross_salary"
    using assms by simp_all
  then show ?thesis using assms
    by (simp add: rule_defs table_defs Let_def)
qed

text \<open>The amended C1 at a gross salary of 10000.\<close>

theorem C1_insurance_rules_witness:
  "(6331::rat) \<le> 10000 \<and> (10000::rat) \<le> 44020
   \<and> NationalInsuranceCalculator_calculate national_insurance_brackets 10000 = 282.154
   \<and> HealthInsuranceCalculator_calculate health_insurance_brackets 10000 = 379.711"
proof -
  have a: "(6331::rat) \<le> 10000" by simp
  have b: "(10000::rat) \<le> 44020" by simp
  show ?thesis
    using a b C1_insurance_rules [where gross_salary = 10000
        and c = national_insurance_brackets, OF a b]
    by simp
qed

text \<open>
  C2, as stated, fails: a table whose bounds descend (10, then 5) and whose second rate is
  2 is accepted by the constructor, and applying it to 20 returns the number \<open>- 5\<close>; no
  \<open>ConfigurationError\<close> is raised.
\<close>

theorem C2_counterexample:
  "\<not> ascending_bounds [\<lparr>max_taxable_income = 10, tax_rate = 0.5\<rparr>,
                         \<lparr>max_taxable_income = 5, tax_rate = 2\<rparr>]
   \<and> \<not> rates_in_range [\<lparr>max_taxable_income = 10, tax_rate = 0.5\<rparr>,
                         \<lparr>max_taxable_income = 5, tax_rate = 2\<rparr>]
   \<and> TaxBracketsDeductionCalculator_init
        [\<lparr>max_taxable_income = 10, tax_rate = 0.5\<rparr>, \<lparr>max_taxable_income = 5, tax_rate = 2\<rparr>]
       = Inr \<lparr>tax_brackets = [\<lparr>max_taxable_income = 10, tax_rate = 0.5\<rparr>,
                                \<lparr>max_taxable_income = 5, tax_rate = 2\<rparr>]\<rparr>
   \<and> construct_and_calculate
        [\<lparr>max_taxable_income = 10, tax_rate = 0.5\<rparr>, \<lparr>max_taxable_income = 5, tax_rate = 2\<rparr>] 20
       = Inr (- 5)"
  by (simp add: ascending_bounds_def rates_in_range_def TaxBracketsDeductionCalculator_init_def
      construct_and_calculate_def TaxBracketsDeductionCalculator_calculate_def Let_def)

text \<open>
  C2, amended. The code validates nothing: for every bracket table, well formed or not,
  building the calculator and applying it never fails with \<open>ConfigurationError\<close>, and the
  result is the number the loop computes. In particular the error branch is never taken
  for a well-formed table.
\<close>

theorem C2_no_validation:
  "TaxBracketsDeductionCalculator_init brackets \<noteq> Inl ConfigurationError
   \<and> construct_and_calculate brackets gross_salary \<noteq> Inl ConfigurationError
   \<and> construct_and_calculate brackets gross_salary
       = Inr (calculate_loop brackets gross_salary 0 0)"
  by (simp add: TaxBracketsDeductionCalculator_init_def construct_and_calculate_def
      TaxBracketsDeductionCalculator_calculate_def)

text \<open>
  C3. For every gross salary and every number of tax points, the Income Tax rule returns
  the bracket engine applied to its table minus \<open>TAX_POINT_VALUE * tax_points\<close>, with
  \<open>TAX_POINT_VALUE = 223\<close>. The default table has seven tiers, with upper bounds
  6450, 9240, 14840, 20620, 42910, 55270 and the bound that stands for "unbounded"
  (\<open>sys.maxsize\<close>), and rates 0.10, 0.14, 0.20, 0.31, 0.35, 0.47, 0.50. The result is not
  clamped at zero: with 2.25 tax points and a gross salary of 0 it is \<open>- 501.75\<close>.
\<close>

theorem C3_income_tax:
  "calculate (IncomeTaxCalculator tax_points c) gross_salary
     = TaxBracketsDeductionCalculator_calculate c gross_salary - 223 * tax_points
   \<and> TAX_POINT_VALUE = 223
   \<and> map max_taxable_income (tax_brackets income_tax_brackets)
       = [6450, 9240, 14840, 20620, 42910, 55270, sys_maxsize]
   \<and> map tax_rate (tax_brackets income_tax_brackets)
       = [0.10, 0.14, 0.20, 0.31, 0.35, 0.47, 0.50]
   \<and> calculate (IncomeTaxCalculator 2.25 income_tax_brackets) 0 = - 501.75"
  by (simp add: rule_defs income_tax_brackets_def Let_def)

text \<open>
  C4. For every gross salary and every list of rules, the net salary calculator applies
  each rule to the same gross salary, logs one record per rule in the order of the list,
  and returns the gross salary minus the sum of the amounts. The factory builds exactly
  the four rules Income Tax, National Insurance, Health Insurance, Mandatory Pension, in
  that order, and the tax points reach only the Income Tax rule: the other three rules are
  the same for any two numbers of tax points.
\<close>

theorem C4_pipeline:
  "NetSalaryCalculator_calculate \<lparr>deduction_calculators = rules\<rparr> gross_salary =
     (gross_salary - sum_list (map (\<lambda>c. calculate c gross_salary) rules),
      map (\<lambda>c. (repr c, calculate c gross_salary)) rules)
   \<and> deduction_calculators (NetSalaryCalculatorFactory_create tax_points) =
       [IncomeTaxCalculator tax_points income_tax_brackets,
        NationalInsuranceCalculator national_insurance_brackets,
        HealthInsuranceCalculator health_insurance_brackets,
        MandatoryPensionSavingsCalculator]
   \<and> map repr (deduction_calculators (NetSalaryCalculatorFactory_create tax_points)) =
       [''Income tax'', ''National insurance'', ''Health insurance'',
        ''Mandatory pension savings'']
   \<and> tl (deduction_calculators (NetSalaryCalculatorFactory_create tax_points)) =
       tl (deduction_calculators (NetSalaryCalculatorFactory_create other_tax_points))"
  by (simp add: NetSalaryCalculator_calculate_def deductions_loop_eq
      NetSalaryCalculatorFactory_create_def)

text \<open>
  C5. With a gross salary of 10000 and 2.25 tax points, the pipeline built by the factory
  gives the deductions 685.85 (Income Tax), 282.154 (National Insurance), 379.711 (Health
  Insurance) and 600 (Mandatory Pension), 1947.715 in total, and the net salary 8052.285.
\<close>

theorem C5_scenario:
  "map (\<lambda>c. calculate c 10000) (deduction_calculators (NetSalaryCalculatorFactory_create 2.25))
     = [685.85, 282.154, 379.711, 600]
   \<and> sum_list (map (\<lambda>c. calculate c 10000)
        (deduction_calculators (NetSalaryCalculatorFactory_create 2.25))) = 1947.715
   \<and> NetSalaryCalculator_calculate (NetSalaryCalculatorFactory_create 2.25) 10000 =
       (8052.285, [(''Income tax'', 685.85), (''National insurance'', 282.154),
          (''Health insurance'', 379.711), (''Mandatory pension savings'', 600)])"
  by (simp add: NetSalaryCalculator_calculate_def NetSalaryCalculatorFactory_create_def
      rule_defs table_defs Let_def)

text \<open>
  C7, as stated, fails. The loop is entered only when the gross salary is at least 0, so
  a single tier with rate 0.5 gives 0, not \<open>- 0.5\<close>, at a gross salary of \<open>- 1\<close>. And the
  tier that stands for "unbounded" is bounded by \<open>sys.maxsize\<close>: at a gross salary of
  \<open>2 ^ 63\<close> the deduction is \<open>sys.maxsize * 0.5\<close>.
\<close>

theorem C7_counterexample:
  "TaxBracketsDeductionCalculator_calculate
     \<lparr>tax_brackets = [\<lparr>max_taxable_income = sys_maxsize, tax_rate = 0.5\<rparr>]\<rparr> (- 1)
     \<noteq> (- 1) * 0.5
   \<and> TaxBracketsDeductionCalculator_calculate
     \<lparr>tax_brackets = [\<lparr>max_taxable_income = sys_maxsize, tax_rate = 0.5\<rparr>]\<rparr> (2 ^ 63)
     \<noteq> 2 ^ 63 * 0.5"
  by (simp add: TaxBracketsDeductionCalculator_calculate_def sys_maxsize_def Let_def)

text \<open>
  C7, amended. For every gross salary from 0 up to \<open>sys.maxsize\<close>, a table made of the
  single tier bounded by \<open>sys.maxsize\<close>, with rate \<open>r\<close>, yields exactly
  \<open>gross_salary * r\<close>.
\<close>

theorem C7_flat_rate:
  assumes "0 \<le> gross_salary" and "gross_salary \<le> of_int sys_maxsize"
  shows "TaxBracketsDeductionCalculator_calculate
           \<lparr>tax_brackets = [\<lparr>max_taxable_income = sys_maxsize, tax_rate = r\<rparr>]\<rparr> gross_salary
         = gross_salary * r"
  using assms by (simp add: TaxBracketsDeductionCalculator_calculate_def Let_def min_def)

text \<open>The amended C7 at a gross salary of 10000 and the rate 0.06.\<close>

theorem C7_flat_rate_witness:
  "(0::rat) \<le> 10000 \<and> (10000::rat) \<le> of_int sys_maxsize
   \<and> TaxBracketsDeductionCalculator_calculate
        \<lparr>tax_brackets = [\<lparr>max_taxable_income = sys_maxsize, tax_rate = 0.06\<rparr>]\<rparr> 10000
      = 600"
proof -
  have a: "(0::rat) \<le> 10000" by simp
  have b: "(10000::rat) \<le> of_int sys_maxsize" by (simp add: sys_maxsize_def)
  show ?thesis using a b C7_flat_rate [OF a b, of "0.06"] by simp
qed

text \<open>
  C8, as stated, fails: the table with the single tier bounded by \<open>- 5\<close>, rate 0.5, has
  strictly ascending bounds and its rate is in \<open>[0, 1]\<close>, and at a gross salary of 0 the
  deduction is \<open>- 2.5\<close>.
\<close>

theorem C8_counterexample:
  "well_formed [\<lparr>max_taxable_income = - 5, tax_rate = 0.5\<rparr>]
   \<and> TaxBracketsDeductionCalculator_calculate
        \<lparr>tax_brackets = [\<lparr>max_taxable_income = - 5, tax_rate = 0.5\<rparr>]\<rparr> 0 = - 2.5"
  by (simp add: well_formed_def ascending_bounds_def rates_in_range_def
      TaxBracketsDeductionCalculator_calculate_def Let_def)

text \<open>
  C8, amended. For every well-formed bracket table whose upper bounds are not negative,
  and every gross salary at most 0 (0 included), the bracket engine returns 0.
\<close>

theorem C8_non_positive_salary:
  assumes "well_formed (tax_brackets c)"
    and "list_all (\<lambda>b. 0 \<le> max_taxable_income b) (tax_brackets c)"
    and "gross_salary \<le> 0"
  shows "TaxBracketsDeductionCalculator_calculate c gross_salary = 0"
proof (cases "gross_salary = 0")
  case True
  have "calculate_loop (tax_brackets c) 0 0 0 = 0"
    using assms(2) by (rule calculate_loop_zero) simp
  with True show ?thesis by (simp add: TaxBracketsDeductionCalculator_calculate_def)
next
  case False
  with assms(3) have "gross_salary < of_int 0" by simp
  then have "calculate_loop (tax_brackets c) gross_salary 0 0 = 0"
    by (rule calculate_loop_negative)
  then show ?thesis by (simp add: TaxBracketsDeductionCalculator_calculate_def)
qed

text \<open>The amended C8 on the income tax table, at the gross salaries 0 and \<open>- 100\<close>.\<close>

theorem C8_non_positive_salary_witness:
  "well_formed (tax_brackets income_tax_brackets)
   \<and> list_all (\<lambda>b. 0 \<le> max_taxable_income b) (tax_brackets income_tax_brackets)
   \<and> (0::rat) \<le> 0 \<and> (- 100::rat) \<le> 0
   \<and> TaxBracketsDeductionCalculator_calculate income_tax_brackets 0 = 0
   \<and> TaxBracketsDeductionCalculator_calculate income_tax_brackets (- 100) = 0"
proof -
  have w: "well_formed (tax_brackets income_tax_brackets)" by (rule well_formed_income_tax)
  have n: "list_all (\<lambda>b. 0 \<le> max_taxable_income b) (tax_brackets income_tax_brackets)"
    by (rule nonneg_bounds_income_tax)
  have a: "(0::rat) \<le> 0" and b: "(- 100::rat) \<le> 0" by simp_all
  show ?thesis
    using w n C8_non_positive_salary [OF w n a] C8_non_positive_salary [OF w n b] by simp
qed

text \<open>
  C9. For every gross salary of at least 44020, the National Insurance deduction is
  \<open>6331 * 0.004 + (44020 - 6331) * 0.07\<close>, its value at 44020, and the Health Insurance
  deduction is \<open>6331 * 0.031 + (44020 - 6331) * 0.05\<close>, its value at 44020.
\<close>

theorem C9_insurance_cap:
  assumes "44020 \<le> gross_salary"
  shows "NationalInsuranceCalculator_calculate national_insurance_brackets gross_salary
           = 6331 * 0.004 + (44020 - 6331) * 0.07
       \<and> NationalInsuranceCalculator_calculate national_insurance_brackets gross_salary
           = NationalInsuranceCalculator_calculate national_insurance_brackets 44020
       \<and> HealthInsuranceCalculator_calculate health_insurance_brackets gross_salary
           = 6331 * 0.031 + (44020 - 6331) * 0.05
       \<and> HealthInsuranceCalculator_calculate health_insurance_brackets gross_salary
           = HealthInsuranceCalculator_calculate health_insurance_brackets 44020"
proof -
  have "min gross_salary 6331 = 6331" "min gross_salary 44020 = 44020"
    using assms by simp_all
  then show ?thesis using assms by (simp add: rule_defs table_defs Let_def)
qed

text \<open>C9 at a gross salary of 100000.\<close>

theorem C9_insurance_cap_witness:
  "(44020::rat) \<le> 100000
   \<and> NationalInsuranceCalculator_calculate national_insurance_brackets 100000 = 2663.554
   \<and> HealthInsuranceCalculator_calculate health_insurance_brackets 100000 = 2080.711"
proof -
  have a: "(44020::rat) \<le> 100000" by simp
  show ?thesis using a C9_insurance_cap [OF a] by simp
qed

text \<open>
  C10. With an empty list of rules the net salary calculator returns the gross salary
  unchanged, and logs nothing.
\<close>

theorem C10_empty_pipeline:
  "NetSalaryCalculator_calculate \<lparr>deduction_calculators = []\<rparr> gross_salary = (gross_salary, [])"
  by (simp add: NetSalaryCalculator_calculate_def)

end
